theory Spec2Isabelle
  imports Complex_Main "HOL-Library.Monad_Syntax" "HOL-Library.Word"
begin

section \<open>Tensor operations: operand roles\<close>

text \<open>
  The opcodes of \<^verbatim>\<open>tensor_basic.hpp\<close>, in the order of the enum.
\<close>

datatype TensorOpCode =
  NOOP | CREATE | DESTROY | TRANSFORM | SLICE | INSERT | ADD | CONTRACT
  | DECOMPOSE_SVD3 | DECOMPOSE_SVD2 | ORTHOGONALIZE_SVD | ORTHOGONALIZE_MGS
  | FETCH | UPLOAD | BROADCAST | ALLREDUCE

datatype TensorElementType =
  VOID | REAL16 | REAL32 | REAL64 | COMPLEX16 | COMPLEX32 | COMPLEX64

text \<open>
  The data a \<^verbatim>\<open>TensorOperation\<close> holds. Each subclass constructor of the sources passes
  \<^verbatim>\<open>(opcode, num_operands, num_scalars, mutability, symbolic positions)\<close> to the base
  class. A tensor operand is kept by its volume (the only thing \<^verbatim>\<open>getFlopEstimate\<close>
  reads of it); an operand that is not set yet is \<open>None\<close>.
\<close>

record TensorOperation =
  opcode :: TensorOpCode
  num_operands :: nat
  num_scalars :: nat
  mutation :: nat
  symb_pos :: "int list"
  operands :: "nat option list"
  scalars :: "complex list"
  pattern :: string

record TensorOpContract = TensorOperation +
  accumulative :: bool

record TensorOpCreate = TensorOperation +
  element_type :: TensorElementType

text \<open>
  Modelled from the spec: the base class of \<^verbatim>\<open>tensor_operation.hpp\<close> is not among the
  sources. Its constructor stores its arguments, with \<open>num_operands\<close> unset operands,
  \<open>num_scalars\<close> zero scalars and an empty index pattern; \<open>mutability\<close> is the per-op
  bitset "which operands are reads vs writes": bit \<open>i\<close> set means operand \<open>i\<close> is written.
  The constructors below write the bitset as \<^verbatim>\<open>b0 + b1*2 + b2*4\<close>, one bit per operand.
\<close>

definition TensorOperation_init ::
  "TensorOpCode \<Rightarrow> nat \<Rightarrow> nat \<Rightarrow> nat \<Rightarrow> int list \<Rightarrow> TensorOperation" where
  "TensorOperation_init oc n_operands n_scalars mutability positions =
     \<lparr>opcode = oc, num_operands = n_operands, num_scalars = n_scalars,
      mutation = mutability, symb_pos = positions,
      operands = replicate n_operands None, scalars = replicate n_scalars 0,
      pattern = []\<rparr>"

definition operandIsMutable :: "'a TensorOperation_scheme \<Rightarrow> nat \<Rightarrow> bool" where
  "operandIsMutable op' i = bit (mutation op') i"

definition setScalar :: "nat \<Rightarrow> complex \<Rightarrow> 'a TensorOperation_scheme \<Rightarrow> 'a TensorOperation_scheme" where
  "setScalar i z op' = op'\<lparr>scalars := (scalars op')[i := z]\<rparr>"

definition getNumOperandsSet :: "'a TensorOperation_scheme \<Rightarrow> nat" where
  "getNumOperandsSet op' = length (filter (\<lambda>t. t \<noteq> None) (operands op'))"

text \<open>The constructors of \<^verbatim>\<open>tensor_op_create.cpp\<close>, \<^verbatim>\<open>tensor_op_transform.cpp\<close>,
  \<^verbatim>\<open>tensor_op_contract.cpp\<close> and \<^verbatim>\<open>tensor_op_decompose_svd2.cpp\<close>.\<close>

definition new_TensorOpCreate :: TensorOpCreate where
  "new_TensorOpCreate =
     TensorOperation.extend (TensorOperation_init CREATE 1 0 1 [0])
       (TensorOpCreate.fields REAL64)"

definition new_TensorOpTransform :: TensorOperation where
  "new_TensorOpTransform =
     setScalar 0 (Complex 0 0) (TensorOperation_init TRANSFORM 1 1 1 [0])"

definition new_TensorOpContract :: TensorOpContract where
  "new_TensorOpContract =
     setScalar 1 (Complex 1 0) (setScalar 0 (Complex 1 0)
       (TensorOperation.extend
          (TensorOperation_init CONTRACT 3 2 (1 + 0 * 2 + 0 * 4) [0, 1, 2])
          (TensorOpContract.fields True)))"

definition new_TensorOpDecomposeSVD2 :: TensorOperation where
  "new_TensorOpDecomposeSVD2 =
     TensorOperation_init DECOMPOSE_SVD2 3 0 (1 + 1 * 2 + 0 * 4) [1, 2, 0]"

text \<open>\<^verbatim>\<open>TensorOpContract::isSet\<close> and \<^verbatim>\<open>TensorOpContract::getFlopEstimate\<close>;
  a \<^verbatim>\<open>double\<close> is a real number here.\<close>

definition isSet :: "TensorOpContract \<Rightarrow> bool" where
  "isSet op' \<longleftrightarrow> getNumOperandsSet op' = num_operands op' \<and> length (pattern op') > 0"

definition getFlopEstimate :: "TensorOpContract \<Rightarrow> real" where
  "getFlopEstimate op' =
     (if isSet op' then
        (case operands op' of
           Some vol0 # Some vol1 # Some vol2 # _ \<Rightarrow> sqrt (real vol0 * real vol1 * real vol2)
         | _ \<Rightarrow> 0)
      else 0)"

section \<open>Connected tensors\<close>

datatype LegDirection = UNDIRECT | INWARD | OUTWARD

record TensorLeg =
  leg_tensor_id :: nat
  leg_dimensn_id :: nat
  leg_direction :: LegDirection

text \<open>
  Modelled from the spec: \<^verbatim>\<open>TensorLeg::reverseDirection\<close> (\<^verbatim>\<open>tensor_leg.hpp\<close> is not
  among the sources) "reverses every directed leg; undirected legs unchanged".
\<close>

definition reverse_dir :: "LegDirection \<Rightarrow> LegDirection" where
  "reverse_dir d = (case d of UNDIRECT \<Rightarrow> UNDIRECT | INWARD \<Rightarrow> OUTWARD | OUTWARD \<Rightarrow> INWARD)"

definition reverseDirection :: "TensorLeg \<Rightarrow> TensorLeg" where
  "reverseDirection l = l\<lparr>leg_direction := reverse_dir (leg_direction l)\<rparr>"

text \<open>
  \<^verbatim>\<open>TensorConn\<close>: the stored tensor (kept by its name), the vertex id, the legs and the
  two flags. \<^verbatim>\<open>TensorConn::conjugate()\<close> and \<^verbatim>\<open>TensorConn::conjugate(bool)\<close> of
  \<^verbatim>\<open>tensor_connected.cpp\<close>.
\<close>

record TensorConn =
  conn_tensor :: string
  conn_id :: nat
  conn_legs :: "TensorLeg list"
  conn_conjugated :: bool
  conn_optimizable :: bool

definition conjugate :: "TensorConn \<Rightarrow> TensorConn" where
  "conjugate t =
     (let t1 = (if conn_id t \<noteq> 0 then t\<lparr>conn_conjugated := \<not> conn_conjugated t\<rparr> else t)
      in t1\<lparr>conn_legs := map reverseDirection (conn_legs t1)\<rparr>)"

definition conjugate_to :: "bool \<Rightarrow> TensorConn \<Rightarrow> TensorConn" where
  "conjugate_to conjug t = (if conn_conjugated t \<noteq> conjug then conjugate t else t)"

section \<open>The MPI communicator proxy\<close>

text \<open>
  A communicator handle, and the result of \<^verbatim>\<open>MPI_Comm_compare\<close>. The MPI library is
  outside the repository: the two calls the destructor makes are parameters, each
  returning its error code (\<open>0\<close> is \<^verbatim>\<open>MPI_SUCCESS\<close>).
\<close>

datatype MPI_Comm = MPI_COMM_WORLD | MPI_COMM_SELF | MPI_Comm_other nat

datatype MPI_Compare = MPI_IDENT | MPI_CONGRUENT | MPI_SIMILAR | MPI_UNEQUAL

record MPI_lib =
  MPI_Comm_compare :: "MPI_Comm \<Rightarrow> MPI_Comm \<Rightarrow> int \<times> MPI_Compare"
  MPI_Comm_free :: "MPI_Comm \<Rightarrow> int"

text \<open>
  The proxy: the shared pointer to the communicator (\<open>None\<close> when the proxy is empty),
  the pointer's use count and the \<open>destroy_on_free\<close> bit.
\<close>

record MPICommProxy =
  mpi_comm_ptr :: "MPI_Comm option"
  use_count :: nat
  destroy_on_free :: bool

text \<open>What a run of the destructor did: the communicators it passed to
  \<^verbatim>\<open>MPI_Comm_free\<close>, and whether it ran to its end (\<open>False\<close>: an assertion on an MPI
  error code failed).\<close>

record dtor_result =
  freed :: "MPI_Comm list"
  completed :: bool

definition MPICommProxy_dtor :: "bool \<Rightarrow> MPI_lib \<Rightarrow> MPICommProxy \<Rightarrow> dtor_result" where
  "MPICommProxy_dtor mpi_enabled lib p =
     (if \<not> mpi_enabled then \<lparr>freed = [], completed = True\<rparr>
      else if destroy_on_free p then
        (case mpi_comm_ptr p of
           None \<Rightarrow> \<lparr>freed = [], completed = True\<rparr>
         | Some mpicomm \<Rightarrow>
             if use_count p = 1 then
               (case MPI_Comm_compare lib mpicomm MPI_COMM_WORLD of (errc, res) \<Rightarrow>
                  if errc \<noteq> 0 then \<lparr>freed = [], completed = False\<rparr>
                  else if res \<noteq> MPI_IDENT then
                    (case MPI_Comm_compare lib mpicomm MPI_COMM_SELF of (errc2, res2) \<Rightarrow>
                       if errc2 \<noteq> 0 then \<lparr>freed = [], completed = False\<rparr>
                       else if res2 \<noteq> MPI_IDENT then
                         \<lparr>freed = [mpicomm], completed = (MPI_Comm_free lib mpicomm = 0)\<rparr>
                       else \<lparr>freed = [], completed = True\<rparr>)
                  else \<lparr>freed = [], completed = True\<rparr>)
             else \<lparr>freed = [], completed = True\<rparr>)
      else \<lparr>freed = [], completed = True\<rparr>)"

section \<open>The tensor network reconstructor\<close>

text \<open>
  A tensor expansion, as far as the reconstructor reads it: ket or bra, its rank, and
  the connected tensors of its networks in iteration order, each with its name and its
  optimizable flag.
\<close>

record TensorExpansion =
  exp_ket :: bool
  exp_rank :: nat
  exp_tensors :: "(string \<times> bool) list"

record TensorNetworkReconstructor =
  expansion :: TensorExpansion
  approximant :: TensorExpansion
  max_iterations :: nat
  epsilon :: real
  tolerance :: real
  residual_norm2 :: real
  fidelity :: real
  environments :: "string list"


definition resetTolerance :: "real \<Rightarrow> TensorNetworkReconstructor \<Rightarrow> TensorNetworkReconstructor" where
  "resetTolerance tol r = r\<lparr>tolerance := tol\<rparr>"

definition resetMaxIterations :: "nat \<Rightarrow> TensorNetworkReconstructor \<Rightarrow> TensorNetworkReconstructor" where
  "resetMaxIterations n r = r\<lparr>max_iterations := n\<rparr>"


text \<open>
  The numerical server that evaluates expansions is outside the sources. It is a
  parameter: a store \<open>'s\<close> of tensor values and, on it, what the calls of one iteration
  compute. \<open>eval_gradient_maxabs s t\<close> creates and evaluates the gradient of tensor \<open>t\<close>
  and returns its max-abs norm; \<open>add_gradient s t c\<close> is the store after
  \<^verbatim>\<open>addTensorsSync\<close> with prefactor \<open>c\<close>; \<open>eval_residual\<close> and \<open>eval_overlap\<close> are the
  values of the scalars \<^verbatim>\<open>Residual\<close> and \<^verbatim>\<open>Overlap\<close> (the approximant contracted with the
  target expansion). Every call is taken to succeed (the source asserts it).
  \<^verbatim>\<open>computeNorm1Sync\<close> of a scalar tensor is the modulus of its value.
\<close>

record 's backend =
  eval_gradient_maxabs :: "'s \<Rightarrow> string \<Rightarrow> real"
  add_gradient :: "'s \<Rightarrow> string \<Rightarrow> real \<Rightarrow> 's"
  eval_residual :: "'s \<Rightarrow> complex"
  eval_overlap :: "'s \<Rightarrow> complex"

text \<open>The names of the environments one call of \<^verbatim>\<open>reconstruct\<close> adds: every optimizable
  tensor of the approximant, once per name (\<open>seen\<close> is the set \<^verbatim>\<open>tensor_names\<close>).\<close>

fun new_environments :: "(string \<times> bool) list \<Rightarrow> string list \<Rightarrow> string list" where
  "new_environments [] seen = []"
| "new_environments ((nm, optimizable) # ts) seen =
     (if optimizable \<and> nm \<notin> set seen then nm # new_environments ts (nm # seen)
      else new_environments ts seen)"

text \<open>The body of the loop over the environments: the store and \<^verbatim>\<open>max_grad_maxabs\<close>
  after one environment.\<close>

definition gradient_step ::
  "'s backend \<Rightarrow> real \<Rightarrow> real \<Rightarrow> string \<Rightarrow> 's \<times> real \<Rightarrow> 's \<times> real" where
  "gradient_step B tol eps t st =
     (case st of (s, max_grad_maxabs) \<Rightarrow>
        let grad_maxabs = eval_gradient_maxabs B s t;
            m = (if grad_maxabs > max_grad_maxabs then grad_maxabs else max_grad_maxabs);
            s1 = (if grad_maxabs > tol then add_gradient B s t (- eps) else s)
        in (s1, m))"

text \<open>
  The \<^verbatim>\<open>while(!converged)\<close> loop. It may run forever, which is the value \<open>None\<close>. It
  returns the store, the number of iterations made and the last residual norm.
\<close>

partial_function (option) reconstruct_loop ::
  "'s backend \<Rightarrow> TensorNetworkReconstructor \<Rightarrow> 's \<Rightarrow> nat \<Rightarrow> ('s \<times> nat \<times> real) option" where
  "reconstruct_loop B r s iteration =
     (case fold (gradient_step B (tolerance r) (epsilon r)) (environments r) (s, 0) of
        (s1, max_grad_maxabs) \<Rightarrow>
          if max_grad_maxabs \<le> tolerance r
          then Some (s1, iteration + 1, cmod (eval_residual B s1))
          else reconstruct_loop B r s1 (iteration + 1))"

text \<open>
  \<^verbatim>\<open>reconstruct\<close>, called with two non-null output pointers (the source asserts it). The
  result is the returned flag, the contents of \<^verbatim>\<open>*residual_norm2\<close> and \<^verbatim>\<open>*fidelity\<close>, the
  reconstructor and the store afterwards.
\<close>

definition reconstruct ::
  "'s backend \<Rightarrow> TensorNetworkReconstructor \<Rightarrow> 's
     \<Rightarrow> (bool \<times> real \<times> real \<times> TensorNetworkReconstructor \<times> 's) option" where
  "reconstruct B r0 s =
     (let r = r0\<lparr>residual_norm2 := 0, fidelity := 0,
                 environments := environments r0 @ new_environments (exp_tensors (approximant r0)) []\<rparr>
      in if environments r = [] then Some (True, residual_norm2 r, fidelity r, r, s)
         else
           (case reconstruct_loop B r s 0 of
              None \<Rightarrow> None
            | Some (s1, iteration, res) \<Rightarrow>
                let overlap_abs = cmod (eval_overlap B s1);
                    r1 = r\<lparr>residual_norm2 := res, fidelity := overlap_abs * overlap_abs\<rparr>
                in Some (True, residual_norm2 r1, fidelity r1, r1, s1)))"

section \<open>The METIS graph\<close>

text \<open>
  \<^verbatim>\<open>idx_t\<close> is the signed index type of METIS. Its values are integers here: the
  arithmetic of the functions below on \<^verbatim>\<open>idx_t\<close> is modelled without wrap-around; a
  \<^verbatim>\<open>std::size_t\<close> that is stored as an \<^verbatim>\<open>idx_t\<close> goes through \<open>to_idx_t\<close>. The graph is in
  compressed-row form: the edges of vertex \<open>v\<close> are the entries \<open>xadj[v] .. xadj[v+1]-1\<close> of
  \<open>adjncy\<close> (adjacent vertex) and \<open>adjwgt\<close> (edge weight). The METIS option array is left
  out: nothing below reads it.
\<close>

type_synonym idx_t = int

record MetisGraph =
  num_vertices :: idx_t
  num_parts :: idx_t
  edge_cut :: idx_t
  num_cross_edges :: idx_t
  renumber :: "idx_t list"
  xadj :: "idx_t list"
  adjncy :: "idx_t list"
  vwgt :: "idx_t list"
  adjwgt :: "idx_t list"
  tpwgts :: "real list"
  ubvec :: "real list"
  partitions :: "idx_t list"
  part_weights :: "idx_t list"

definition initMetisGraph :: "MetisGraph \<Rightarrow> MetisGraph" where
  "initMetisGraph g =
     g\<lparr>num_vertices := 0, num_parts := 0, edge_cut := 0, num_cross_edges := 0,
       xadj := xadj g @ [0]\<rparr>"

definition new_MetisGraph :: MetisGraph where
  "new_MetisGraph =
     initMetisGraph
       \<lparr>num_vertices = 0, num_parts = 0, edge_cut = 0, num_cross_edges = 0,
        renumber = [], xadj = [], adjncy = [], vwgt = [], adjwgt = [],
        tpwgts = [], ubvec = [], partitions = [], part_weights = []\<rparr>"

definition clearPartitions :: "MetisGraph \<Rightarrow> MetisGraph" where
  "clearPartitions g =
     g\<lparr>tpwgts := [], ubvec := [], partitions := [], part_weights := [],
       edge_cut := 0, num_cross_edges := 0, num_parts := 0\<rparr>"

text \<open>\<^verbatim>\<open>operator==\<close> compares six of the fields.\<close>

definition MetisGraph_eq :: "MetisGraph \<Rightarrow> MetisGraph \<Rightarrow> bool" where
  "MetisGraph_eq lhs rhs \<longleftrightarrow>
     num_vertices lhs = num_vertices rhs \<and> xadj lhs = xadj rhs \<and> adjncy lhs = adjncy rhs \<and>
     vwgt lhs = vwgt rhs \<and> adjwgt lhs = adjwgt rhs \<and> renumber lhs = renumber rhs"

subsection \<open>Array accesses\<close>

text \<open>
  Reading or writing a vector or an array outside its bounds is undefined behaviour
  in the source; it is \<open>None\<close> here, and so is a failed assertion.
\<close>

definition rd :: "'a list \<Rightarrow> int \<Rightarrow> 'a option" where
  "rd xs i = (if 0 \<le> i \<and> i < int (length xs) then Some (xs ! nat i) else None)"

definition wr :: "'a list \<Rightarrow> int \<Rightarrow> 'a \<Rightarrow> 'a list option" where
  "wr xs i v = (if 0 \<le> i \<and> i < int (length xs) then Some (xs[nat i := v]) else None)"

text \<open>\<^verbatim>\<open>v.erase(v.begin()+i)\<close>\<close>

definition erase_at :: "'a list \<Rightarrow> int \<Rightarrow> 'a list option" where
  "erase_at xs i =
     (if 0 \<le> i \<and> i < int (length xs) then Some (take (nat i) xs @ drop (Suc (nat i)) xs)
      else None)"

text \<open>\<^verbatim>\<open>for(i = 0; i < n; ++i) dst[i] = xs[off + i]\<close>: the \<open>n\<close> values read.\<close>

primrec read_block :: "'a list \<Rightarrow> int \<Rightarrow> nat \<Rightarrow> 'a list option" where
  "read_block xs off 0 = Some []"
| "read_block xs off (Suc n) =
     do { x \<leftarrow> rd xs off; r \<leftarrow> read_block xs (off + 1) n; Some (x # r) }"

text \<open>\<^verbatim>\<open>for(i = 0; i < n; ++i) xs[off + i] = src[i]\<close>\<close>

primrec write_block :: "'a list \<Rightarrow> int \<Rightarrow> 'a list \<Rightarrow> 'a list option" where
  "write_block xs off [] = Some xs"
| "write_block xs off (v # vs) = do { ys \<leftarrow> wr xs off v; write_block ys (off + 1) vs }"

text \<open>\<^verbatim>\<open>for(i = hi; i >= lo; --i) xs[i + k] = xs[i]\<close>\<close>

function shift_up :: "'a list \<Rightarrow> int \<Rightarrow> int \<Rightarrow> int \<Rightarrow> 'a list option" where
  "shift_up xs i lo k =
     (if i \<ge> lo then do { x \<leftarrow> rd xs i; ys \<leftarrow> wr xs (i + k) x; shift_up ys (i - 1) lo k }
      else Some xs)"
  by pat_completeness auto
termination
  by (relation "measure (\<lambda>(xs, i, lo, k). nat (i + 1 - lo))") auto

declare shift_up.simps [simp del]

text \<open>\<^verbatim>\<open>for(vert = lo; vert <= hi; ++vert) xs[vert] += k\<close>\<close>

function add_range :: "idx_t list \<Rightarrow> int \<Rightarrow> int \<Rightarrow> idx_t \<Rightarrow> idx_t list option" where
  "add_range xs vert hi k =
     (if vert \<le> hi then do { x \<leftarrow> rd xs vert; ys \<leftarrow> wr xs vert (x + k); add_range ys (vert + 1) hi k }
      else Some xs)"
  by pat_completeness auto
termination
  by (relation "measure (\<lambda>(xs, vert, hi, k). nat (hi + 1 - vert))") auto

declare add_range.simps [simp del]

subsection \<open>Appending a vertex\<close>



subsection \<open>The cost of a contraction\<close>

text \<open>
  \<^verbatim>\<open>getContractionCost\<close>. A \<^verbatim>\<open>double\<close> is a real number here, and
  \<^verbatim>\<open>std::pow(2.0, w - 1)\<close> is \<open>2 powi (w - 1)\<close>. The two loops over the edges of
  \<open>vertex1\<close> and of \<open>vertex2\<close>:
\<close>

function edges1_volume :: "MetisGraph \<Rightarrow> int \<Rightarrow> int \<Rightarrow> int \<Rightarrow> real \<times> real \<Rightarrow> (real \<times> real) option" where
  "edges1_volume g vertex2 i hi vols =
     (if i < hi then
        (case vols of (contr_vol, left_vol) \<Rightarrow>
           do {
             w \<leftarrow> rd (adjwgt g) i;
             a \<leftarrow> rd (adjncy g) i;
             edges1_volume g vertex2 (i + 1) hi
               (if a = vertex2 then contr_vol * (2 powi (w - 1)) else contr_vol,
                left_vol * (2 powi (w - 1)))
           })
      else Some vols)"
  by pat_completeness auto
termination
  by (relation "measure (\<lambda>(g, vertex2, i, hi, vols). nat (hi - i))") auto

declare edges1_volume.simps [simp del]

function edges2_volume :: "MetisGraph \<Rightarrow> int \<Rightarrow> int \<Rightarrow> real \<Rightarrow> real option" where
  "edges2_volume g i hi right_vol =
     (if i < hi then
        do { w \<leftarrow> rd (adjwgt g) i; edges2_volume g (i + 1) hi (right_vol * (2 powi (w - 1))) }
      else Some right_vol)"
  by pat_completeness auto
termination
  by (relation "measure (\<lambda>(g, i, hi, right_vol). nat (hi - i))") auto

declare edges2_volume.simps [simp del]

text \<open>
  The result is the returned flop estimate and what was written to
  \<^verbatim>\<open>*intermediate_volume\<close> and \<^verbatim>\<open>*diff_volume\<close> (\<open>None\<close>: nothing written). The two
  flags say whether the pointers are non-null.
\<close>

definition getContractionCost ::
  "MetisGraph \<Rightarrow> nat \<Rightarrow> nat \<Rightarrow> bool \<Rightarrow> bool \<Rightarrow> (real \<times> real option \<times> real option) option" where
  "getContractionCost g v1 v2 want_intermediate want_diff =
     (let flops = (0 :: real) in
      if v1 \<noteq> v2 \<and> int v1 < num_vertices g \<and> int v2 < num_vertices g then
        (let vertex1 = int (min v1 v2); vertex2 = int (max v1 v2) in
         do {
           w1 \<leftarrow> rd (vwgt g) vertex1;
           w2 \<leftarrow> rd (vwgt g) vertex2;
           lo1 \<leftarrow> rd (xadj g) vertex1;
           hi1 \<leftarrow> rd (xadj g) (vertex1 + 1);
           (contr_vol, left_vol) \<leftarrow> edges1_volume g vertex2 lo1 hi1 (1, 2 powi (w1 - 1));
           lo2 \<leftarrow> rd (xadj g) vertex2;
           hi2 \<leftarrow> rd (xadj g) (vertex2 + 1);
           right_vol \<leftarrow> edges2_volume g lo2 hi2 (2 powi (w2 - 1));
           let inter_vol = left_vol * right_vol / (contr_vol * contr_vol) in
           Some (flops,
                 if want_intermediate then Some inter_vol else None,
                 if want_diff then Some (inter_vol - (left_vol + right_vol)) else None)
         })
      else Some (flops, None, None))"

subsection \<open>Merging two vertices\<close>

text \<open>
  The block of \<^verbatim>\<open>mergeVertices\<close> that runs when vertex 2 has edges: its edges are moved
  right behind those of vertex 1, and the row offsets in between grow.
\<close>

definition move_edges2 ::
  "idx_t list \<Rightarrow> idx_t list \<Rightarrow> idx_t list \<Rightarrow> int \<Rightarrow> int \<Rightarrow> int
     \<Rightarrow> (idx_t list \<times> idx_t list \<times> idx_t list) option" where
  "move_edges2 adj wgt xs vertex1 vertex2 num_edges2 =
     do {
       offset \<leftarrow> rd xs vertex2;
       edges2 \<leftarrow> read_block adj offset (nat num_edges2);
       edge_weights2 \<leftarrow> read_block wgt offset (nat num_edges2);
       lo \<leftarrow> rd xs (vertex1 + 1);
       adj1 \<leftarrow> shift_up adj (offset - 1) lo num_edges2;
       wgt1 \<leftarrow> shift_up wgt (offset - 1) lo num_edges2;
       adj2 \<leftarrow> write_block adj1 lo edges2;
       wgt2 \<leftarrow> write_block wgt1 lo edge_weights2;
       xs1 \<leftarrow> add_range xs (vertex1 + 1) vertex2 num_edges2;
       Some (adj2, wgt2, xs1)
     }"

text \<open>
  The \<^verbatim>\<open>while(not_done)\<close> loop: the two runs of (edge, weight) pairs are merged by
  adjacent vertex id into \<open>adjncy\<close> and \<open>adjwgt\<close> from \<open>offset\<close> on. The remaining pairs
  of each run stand for the indices \<open>j1\<close> and \<open>j2\<close>.
\<close>

fun merge_edges ::
  "idx_t list \<Rightarrow> idx_t list \<Rightarrow> int \<Rightarrow> (idx_t \<times> idx_t) list \<Rightarrow> (idx_t \<times> idx_t) list
     \<Rightarrow> (idx_t list \<times> idx_t list \<times> int) option" where
  "merge_edges adj wgt offset ((e1, w1) # r1) ((e2, w2) # r2) =
     (if e1 \<le> e2 then
        do { a \<leftarrow> wr adj offset e1; w \<leftarrow> wr wgt offset w1;
             merge_edges a w (offset + 1) r1 ((e2, w2) # r2) }
      else
        do { a \<leftarrow> wr adj offset e2; w \<leftarrow> wr wgt offset w2;
             merge_edges a w (offset + 1) ((e1, w1) # r1) r2 })"
| "merge_edges adj wgt offset ((e1, w1) # r1) [] =
     do { a \<leftarrow> wr adj offset e1; w \<leftarrow> wr wgt offset w1; merge_edges a w (offset + 1) r1 [] }"
| "merge_edges adj wgt offset [] ((e2, w2) # r2) =
     do { a \<leftarrow> wr adj offset e2; w \<leftarrow> wr wgt offset w2; merge_edges a w (offset + 1) [] r2 }"
| "merge_edges adj wgt offset [] [] = Some (adj, wgt, offset)"

text \<open>
  The loop that deletes the contracted edges and absorbs a repeated adjacent vertex
  into the entry before it; it runs from \<open>i\<close> down to \<open>lo\<close> and counts the deletions.
\<close>

function delete_redundant ::
  "idx_t list \<Rightarrow> idx_t list \<Rightarrow> int \<Rightarrow> int \<Rightarrow> int \<Rightarrow> int \<Rightarrow> idx_t
     \<Rightarrow> (idx_t list \<times> idx_t list \<times> idx_t) option" where
  "delete_redundant adj wgt i lo vertex1 vertex2 num_deleted =
     (if i \<ge> lo then
        do {
          a \<leftarrow> rd adj i;
          if a = vertex1 \<or> a = vertex2 then
            do { adj1 \<leftarrow> erase_at adj i; wgt1 \<leftarrow> erase_at wgt i;
                 delete_redundant adj1 wgt1 (i - 1) lo vertex1 vertex2 (num_deleted + 1) }
          else
            do {
              b \<leftarrow> rd adj (i - 1);
              if a = b then
                do { w \<leftarrow> rd wgt i; w0 \<leftarrow> rd wgt (i - 1);
                     wgt1 \<leftarrow> wr wgt (i - 1) (w0 + (w - 1));
                     adj2 \<leftarrow> erase_at adj i; wgt2 \<leftarrow> erase_at wgt1 i;
                     delete_redundant adj2 wgt2 (i - 1) lo vertex1 vertex2 (num_deleted + 1) }
              else delete_redundant adj wgt (i - 1) lo vertex1 vertex2 num_deleted
            }
        }
      else Some (adj, wgt, num_deleted))"
  by pat_completeness auto
termination
  by (relation "measure (\<lambda>(adj, wgt, i, lo, vertex1, vertex2, num_deleted). nat (i + 1 - lo))") auto

declare delete_redundant.simps [simp del]

text \<open>
  The block that sorts the combined edges within vertex 1: the two runs are copied out
  and merged back. The variable-length arrays \<^verbatim>\<open>edges1\<close>, \<^verbatim>\<open>edges2\<close> need a length
  that is not negative. The weights of both runs are read from \<open>adjncy\<close>, as the source
  does (\<^verbatim>\<open>edge_weights1[i] = adjncy_[offset++]\<close>). The assertion
  \<^verbatim>\<open>offset == xadj_[vertex1+1]\<close> closes the block.
\<close>

definition sort_combined ::
  "idx_t list \<Rightarrow> idx_t list \<Rightarrow> idx_t list \<Rightarrow> int \<Rightarrow> int \<Rightarrow> int
     \<Rightarrow> (idx_t list \<times> idx_t list) option" where
  "sort_combined adj wgt xs vertex1 num_edges1 num_edges2 =
     (if num_edges1 < 0 \<or> num_edges2 < 0 then None
      else
        do {
          offset \<leftarrow> rd xs vertex1;
          edges1 \<leftarrow> read_block adj offset (nat num_edges1);
          edge_weights1 \<leftarrow> read_block adj offset (nat num_edges1);
          edges2 \<leftarrow> read_block adj (offset + num_edges1) (nat num_edges2);
          edge_weights2 \<leftarrow> read_block adj (offset + num_edges1) (nat num_edges2);
          (adj1, wgt1, offset1) \<leftarrow>
            merge_edges adj wgt offset (zip edges1 edge_weights1) (zip edges2 edge_weights2);
          end1 \<leftarrow> rd xs (vertex1 + 1);
          if offset1 \<noteq> end1 then None else Some (adj1, wgt1)
        })"

text \<open>
  The block that merges the edges incident to the same adjacent vertex and deletes the
  contracted ones: the loop above, then the test of the first edge of vertex 1. It
  returns \<open>adjncy\<close>, \<open>adjwgt\<close> and \<^verbatim>\<open>num_deleted\<close>.
\<close>

definition delete_contracted ::
  "idx_t list \<Rightarrow> idx_t list \<Rightarrow> idx_t list \<Rightarrow> int \<Rightarrow> int
     \<Rightarrow> (idx_t list \<times> idx_t list \<times> idx_t) option" where
  "delete_contracted adj wgt xs vertex1 vertex2 =
     do {
       end1 \<leftarrow> rd xs (vertex1 + 1);
       offset \<leftarrow> rd xs vertex1;
       (adj1, wgt1, num_deleted) \<leftarrow>
         delete_redundant adj wgt (end1 - 1) (offset + 1) vertex1 vertex2 0;
       first \<leftarrow> rd adj1 offset;
       if first = vertex1
       then do { adj2 \<leftarrow> erase_at adj1 offset; wgt2 \<leftarrow> erase_at wgt1 offset;
                 Some (adj2, wgt2, num_deleted + 1) }
       else Some (adj1, wgt1, num_deleted)
     }"

text \<open>
  \<^verbatim>\<open>mergeVertices\<close> up to its two closing assertions: the returned flag and the graph.
\<close>

definition mergeVertices_body :: "MetisGraph \<Rightarrow> nat \<Rightarrow> nat \<Rightarrow> (bool \<times> MetisGraph) option" where
  "mergeVertices_body g0 v1 v2 =
     (let ga = (if num_parts g0 > 0 then clearPartitions g0 else g0);
          g = (if renumber ga \<noteq> [] then ga\<lparr>renumber := []\<rparr> else ga)
      in
      if \<not> (int (length (xadj g)) = num_vertices g + 1 \<and> int (length (vwgt g)) = num_vertices g)
      then None
      else if v1 = v2 \<or> int v1 \<ge> num_vertices g \<or> int v2 \<ge> num_vertices g then Some (False, g)
      else
        (let vertex1 = int (min v1 v2); vertex2 = int (max v1 v2) in
         do {
           vw1 \<leftarrow> rd (vwgt g) vertex1;
           vw2 \<leftarrow> rd (vwgt g) vertex2;
           vwgt1 \<leftarrow> wr (vwgt g) vertex1 (vw1 + (vw2 - 1));
           vwgt2 \<leftarrow> erase_at vwgt1 vertex2;
           x1 \<leftarrow> rd (xadj g) vertex1;
           x1n \<leftarrow> rd (xadj g) (vertex1 + 1);
           x2 \<leftarrow> rd (xadj g) vertex2;
           x2n \<leftarrow> rd (xadj g) (vertex2 + 1);
           (adj1, wgt1, xadj1) \<leftarrow>
             (if x2n - x2 > 0
              then move_edges2 (adjncy g) (adjwgt g) (xadj g) vertex1 vertex2 (x2n - x2)
              else Some (adjncy g, adjwgt g, xadj g));
           (adj2, wgt2) \<leftarrow> sort_combined adj1 wgt1 xadj1 vertex1 (x1n - x1) (x2n - x2);
           (adj3, wgt3, num_deleted) \<leftarrow> delete_contracted adj2 wgt2 xadj1 vertex1 vertex2;
           xadj2 \<leftarrow>
             (if num_deleted > 0
              then add_range xadj1 (vertex1 + 1) (num_vertices g) (- num_deleted)
              else Some xadj1);
           xadj3 \<leftarrow> erase_at xadj2 vertex2;
           Some (True,
             g\<lparr>vwgt := vwgt2, xadj := xadj3,
               adjncy := map (\<lambda>adj_vertex_id. if adj_vertex_id = vertex2 then vertex1
                                                else adj_vertex_id) adj3,
               adjwgt := wgt3,
               num_vertices := num_vertices g - 1\<rparr>)
         }))"

text \<open>\<^verbatim>\<open>mergeVertices\<close>, with the assertions that close a successful merge.\<close>

definition mergeVertices :: "MetisGraph \<Rightarrow> nat \<Rightarrow> nat \<Rightarrow> (bool \<times> MetisGraph) option" where
  "mergeVertices g0 v1 v2 =
     (case mergeVertices_body g0 v1 v2 of
        None \<Rightarrow> None
      | Some (False, g) \<Rightarrow> Some (False, g)
      | Some (True, g) \<Rightarrow>
          if \<not> (int (length (xadj g)) = num_vertices g + 1 \<and> int (length (vwgt g)) = num_vertices g)
          then None
          else if \<not> (length (adjncy g) = length (adjwgt g) \<and>
                     rd (xadj g) (num_vertices g) = Some (int (length (adjncy g))))
          then None
          else Some (True, g))"

text \<open>
  The invariants on the sizes: \<open>xadj\<close> has one entry more than there are vertices, and its
  last entry is the common length of \<open>adjncy\<close> and \<open>adjwgt\<close>.
\<close>

definition sizes_ok :: "MetisGraph \<Rightarrow> bool" where
  "sizes_ok g \<longleftrightarrow>
     int (length (xadj g)) = num_vertices g + 1 \<and>
     length (adjncy g) = length (adjwgt g) \<and>
     rd (xadj g) (num_vertices g) = Some (int (length (adjncy g)))"

text \<open>The adjacency list of vertex \<open>v\<close>, and whether every vertex has a sorted one.\<close>

definition adj_list :: "MetisGraph \<Rightarrow> int \<Rightarrow> idx_t list option" where
  "adj_list g v =
     do { lo \<leftarrow> rd (xadj g) v; hi \<leftarrow> rd (xadj g) (v + 1);
          read_block (adjncy g) lo (nat (hi - lo)) }"

definition lists_sorted :: "MetisGraph \<Rightarrow> bool" where
  "lists_sorted g \<longleftrightarrow>
     list_all (\<lambda>v. case adj_list g (int v) of None \<Rightarrow> False | Some l \<Rightarrow> sorted l)
       [0 ..< nat (num_vertices g)]"

text \<open>
  What the rows need in order to lie one after the other in \<open>adjncy\<close>: the row offsets
  start at 0 or above and do not decrease; and there is one weight for each vertex.
\<close>

definition offsets_ok :: "MetisGraph \<Rightarrow> bool" where
  "offsets_ok g \<longleftrightarrow> int (length (vwgt g)) = num_vertices g \<and> sorted (0 # xadj g)"

subsection \<open>Serialisation\<close>

unbundle bit_operations_syntax

text \<open>
  Modelled from the spec: the byte packet of \<^verbatim>\<open>byte_packet.hpp\<close> is not among the
  sources. A packet is its bytes and the position of the next read. Every item is packed
  little-endian as a \<open>u64\<close>: \<open>appendToBytePacket\<close> adds its eight bytes at the end,
  \<open>extractFromBytePacket\<close> reads eight bytes at the position and moves it on, and fails
  (an assertion) when fewer are left.
\<close>

record BytePacket =
  pk_bytes :: "8 word list"
  pk_position :: nat

primrec le_bytes :: "nat \<Rightarrow> 64 word \<Rightarrow> 8 word list" where
  "le_bytes 0 w = []"
| "le_bytes (Suc n) w = ucast w # le_bytes n (drop_bit 8 w)"

primrec of_le_bytes :: "8 word list \<Rightarrow> 64 word" where
  "of_le_bytes [] = 0"
| "of_le_bytes (b # bs) = ucast b OR push_bit 8 (of_le_bytes bs)"

definition appendToBytePacket :: "BytePacket \<Rightarrow> 64 word \<Rightarrow> BytePacket" where
  "appendToBytePacket p w = p\<lparr>pk_bytes := pk_bytes p @ le_bytes 8 w\<rparr>"

definition extractFromBytePacket :: "BytePacket \<Rightarrow> (64 word \<times> BytePacket) option" where
  "extractFromBytePacket p =
     (if pk_position p + 8 \<le> length (pk_bytes p)
      then Some (of_le_bytes (take 8 (drop (pk_position p) (pk_bytes p))),
                 p\<lparr>pk_position := pk_position p + 8\<rparr>)
      else None)"

text \<open>
  \<^verbatim>\<open>MetisGraph::pack\<close>. One vector: its length, then its elements in order. An
  \<^verbatim>\<open>idx_t\<close> goes into the packet in two's complement, a length as it is.
\<close>

definition pack_vector :: "idx_t list \<Rightarrow> BytePacket \<Rightarrow> BytePacket" where
  "pack_vector v p =
     fold (\<lambda>x q. appendToBytePacket q (word_of_int x)) v
       (appendToBytePacket p (word_of_nat (length v)))"

definition pack :: "MetisGraph \<Rightarrow> BytePacket \<Rightarrow> BytePacket" where
  "pack g p =
     pack_vector (adjwgt g) (pack_vector (vwgt g) (pack_vector (adjncy g)
       (pack_vector (xadj g) (pack_vector (renumber g)
         (appendToBytePacket p (word_of_int (num_vertices g)))))))"

text \<open>
  \<^verbatim>\<open>MetisGraph::unpack\<close>. One vector: the length is extracted, the vector is resized to
  it and every element is extracted in order.
\<close>

primrec extract_elements :: "nat \<Rightarrow> BytePacket \<Rightarrow> (idx_t list \<times> BytePacket) option" where
  "extract_elements 0 p = Some ([], p)"
| "extract_elements (Suc n) p =
     do { (w, q) \<leftarrow> extractFromBytePacket p;
          (xs, q') \<leftarrow> extract_elements n q;
          Some (sint w # xs, q') }"

definition unpack_vector :: "BytePacket \<Rightarrow> (idx_t list \<times> BytePacket) option" where
  "unpack_vector p = do { (len, q) \<leftarrow> extractFromBytePacket p; extract_elements (unat len) q }"

definition unpack :: "MetisGraph \<Rightarrow> BytePacket \<Rightarrow> (MetisGraph \<times> BytePacket) option" where
  "unpack g p =
     do { (n, p1) \<leftarrow> extractFromBytePacket p;
          (ren, p2) \<leftarrow> unpack_vector p1;
          (xa, p3) \<leftarrow> unpack_vector p2;
          (ad, p4) \<leftarrow> unpack_vector p3;
          (vw, p5) \<leftarrow> unpack_vector p4;
          (aw, p6) \<leftarrow> unpack_vector p5;
          Some (g\<lparr>num_vertices := sint n, renumber := ren, xadj := xa, adjncy := ad,
                  vwgt := vw, adjwgt := aw\<rparr>, p6) }"

text \<open>
  The values a graph of the program can hold: an \<^verbatim>\<open>idx_t\<close> is a signed 64-bit
  integer, and the length of a vector fits a \<^verbatim>\<open>size_t\<close>.
\<close>

definition idx_ok :: "idx_t \<Rightarrow> bool" where
  "idx_ok x \<longleftrightarrow> - (2 ^ 63) \<le> x \<and> x < 2 ^ 63"

definition vector_ok :: "idx_t list \<Rightarrow> bool" where
  "vector_ok v \<longleftrightarrow> length v < 2 ^ 64 \<and> list_all idx_ok v"

definition packable :: "MetisGraph \<Rightarrow> bool" where
  "packable g \<longleftrightarrow>
     idx_ok (num_vertices g) \<and> vector_ok (renumber g) \<and> vector_ok (xadj g) \<and>
     vector_ok (adjncy g) \<and> vector_ok (vwgt g) \<and> vector_ok (adjwgt g)"

text \<open>The wire format of one vector, and the bytes of a packet that are still to be
  read.\<close>

definition encode_vector :: "idx_t list \<Rightarrow> 8 word list" where
  "encode_vector v =
     le_bytes 8 (word_of_nat (length v)) @ concat (map (\<lambda>x. le_bytes 8 (word_of_int x)) v)"

definition unread :: "BytePacket \<Rightarrow> 8 word list" where
  "unread p = drop (pk_position p) (pk_bytes p)"

section \<open>Example inputs\<close>

text \<open>A connected tensor with one leg of each direction, as vertex \<open>n\<close> of a network.\<close>

definition conn_example :: "nat \<Rightarrow> TensorConn" where
  "conn_example n =
     \<lparr>conn_tensor = ''T'', conn_id = n,
      conn_legs = [\<lparr>leg_tensor_id = 0, leg_dimensn_id = 0, leg_direction = INWARD\<rparr>,
                   \<lparr>leg_tensor_id = 2, leg_dimensn_id = 1, leg_direction = UNDIRECT\<rparr>,
                   \<lparr>leg_tensor_id = 3, leg_dimensn_id = 0, leg_direction = OUTWARD\<rparr>],
      conn_conjugated = False, conn_optimizable = False\<rparr>"

text \<open>An MPI library in which two communicators compare identical exactly when they are
  the same handle, and every call succeeds.\<close>

definition mpi_example :: MPI_lib where
  "mpi_example =
     \<lparr>MPI_Comm_compare = (\<lambda>a b. (0, if a = b then MPI_IDENT else MPI_UNEQUAL)),
      MPI_Comm_free = (\<lambda>c. 0)\<rparr>"

text \<open>
  A numerical server whose answers do not depend on the store: every gradient has
  max-abs norm \<open>g\<close>, the residual scalar is \<open>res\<close> and the overlap scalar is \<open>ov\<close>.
\<close>

definition backend_const :: "real \<Rightarrow> complex \<Rightarrow> complex \<Rightarrow> unit backend" where
  "backend_const g res ov =
     \<lparr>eval_gradient_maxabs = (\<lambda>s t. g), add_gradient = (\<lambda>s t c. s),
      eval_residual = (\<lambda>s. res), eval_overlap = (\<lambda>s. ov)\<rparr>"

text \<open>A reconstructor of a ket \<open>X\<close> by a bra with one optimizable tensor \<open>Y\<close>, with
  tolerance \<open>10\<^sup>-\<^sup>5\<close> and the iteration cap \<open>cap\<close>.\<close>

definition reconstructor_example :: "nat \<Rightarrow> TensorNetworkReconstructor" where
  "reconstructor_example cap =
     \<lparr>expansion = \<lparr>exp_ket = True, exp_rank = 1, exp_tensors = [(''X'', False)]\<rparr>,
      approximant = \<lparr>exp_ket = False, exp_rank = 1, exp_tensors = [(''Y'', True)]\<rparr>,
      max_iterations = cap, epsilon = 1 / 2, tolerance = 1 / 100000,
      residual_norm2 = 0, fidelity = 0, environments = []\<rparr>"


text \<open>
  A triangle: vertices 0, 1, 2 of weight 1 (no open legs), with the edges 0-1 of weight
  3 (extent 4), 0-2 of weight 4 (extent 8) and 1-2 of weight 5 (extent 16).
\<close>

definition triangle :: MetisGraph where
  "triangle =
     new_MetisGraph\<lparr>num_vertices := 3, xadj := [0, 2, 4, 6], adjncy := [1, 2, 0, 2, 0, 1],
       adjwgt := [3, 4, 3, 5, 4, 5], vwgt := [1, 1, 1]\<rparr>"




section \<open>Operand roles of the tensor operations\<close>

lemma bit_three_iff: "bit (3::nat) i \<longleftrightarrow> i < 2"
proof -
  have "bit (mask 2 :: nat) i \<longleftrightarrow> i < 2"
    by (simp add: bit_mask_iff)
  then show ?thesis
    by (simp add: mask_eq_exp_minus_1)
qed

lemma mutation_values:
  "mutation new_TensorOpCreate = 1"
  "mutation new_TensorOpTransform = 1"
  "mutation new_TensorOpContract = 1"
  "mutation new_TensorOpDecomposeSVD2 = 3"
  by (simp_all add: new_TensorOpCreate_def new_TensorOpTransform_def new_TensorOpContract_def
      new_TensorOpDecomposeSVD2_def TensorOperation_init_def setScalar_def
      TensorOperation.extend_def)

text \<open>
  Claim C2, as amended. The bitsets of CREATE, TRANSFORM and CONTRACT mark operand 0 as
  written and no other operand. The bitset of DECOMPOSE_SVD2 marks operands 0 and 1 as
  written (the two factors the decomposition produces) and operand 2, the tensor that is
  decomposed, as read.
\<close>

theorem operand_roles:
  "(operandIsMutable new_TensorOpCreate i \<longleftrightarrow> i = 0)
   \<and> (operandIsMutable new_TensorOpTransform i \<longleftrightarrow> i = 0)
   \<and> (operandIsMutable new_TensorOpContract i \<longleftrightarrow> i = 0)
   \<and> (operandIsMutable new_TensorOpDecomposeSVD2 i \<longleftrightarrow> i = 0 \<or> i = 1)"
  unfolding operandIsMutable_def mutation_values bit_three_iff bit_1_iff by auto

text \<open>
  Claim C2 as stated fails: DECOMPOSE_SVD2 has three operands, and its operand 1 is
  marked as written.
\<close>

theorem operand_roles_svd2_counterexample:
  "opcode new_TensorOpDecomposeSVD2 = DECOMPOSE_SVD2
   \<and> num_operands new_TensorOpDecomposeSVD2 = 3
   \<and> operandIsMutable new_TensorOpDecomposeSVD2 1"
proof -
  have "operandIsMutable new_TensorOpDecomposeSVD2 1"
    unfolding operandIsMutable_def mutation_values bit_three_iff by simp
  moreover have "opcode new_TensorOpDecomposeSVD2 = DECOMPOSE_SVD2"
    and "num_operands new_TensorOpDecomposeSVD2 = 3"
    by (simp_all add: new_TensorOpDecomposeSVD2_def TensorOperation_init_def)
  ultimately show ?thesis
    by simp
qed

section \<open>Conjugation of a connected tensor\<close>

lemma reverseDirection_twice: "reverseDirection (reverseDirection l) = l"
  by (cases l) (simp add: reverseDirection_def reverse_dir_def split: LegDirection.splits)

text \<open>
  Claim C7. \<open>conjugate\<close> toggles the conjugate flag of an input vertex (id not 0) and
  leaves the flag of the output vertex (id 0) as it is; it keeps every leg's connection
  and swaps inward with outward, leaving an undirected leg undirected; nothing else
  changes, and conjugating twice gives the connected tensor back.
\<close>

theorem conjugate_spec:
  "(conn_id t \<noteq> 0 \<longrightarrow> conn_conjugated (conjugate t) = (\<not> conn_conjugated t))
   \<and> (conn_id t = 0 \<longrightarrow> conn_conjugated (conjugate t) = conn_conjugated t)
   \<and> length (conn_legs (conjugate t)) = length (conn_legs t)
   \<and> (\<forall>i < length (conn_legs t).
        leg_tensor_id (conn_legs (conjugate t) ! i) = leg_tensor_id (conn_legs t ! i)
        \<and> leg_dimensn_id (conn_legs (conjugate t) ! i) = leg_dimensn_id (conn_legs t ! i)
        \<and> leg_direction (conn_legs (conjugate t) ! i) =
            (case leg_direction (conn_legs t ! i) of
               UNDIRECT \<Rightarrow> UNDIRECT | INWARD \<Rightarrow> OUTWARD | OUTWARD \<Rightarrow> INWARD))
   \<and> conn_tensor (conjugate t) = conn_tensor t
   \<and> conn_id (conjugate t) = conn_id t
   \<and> conn_optimizable (conjugate t) = conn_optimizable t
   \<and> conjugate (conjugate t) = t"
proof -
  have twice: "conjugate (conjugate t) = t"
    by (cases t) (simp add: conjugate_def Let_def o_def reverseDirection_twice)
  show ?thesis
    using twice by (simp add: conjugate_def Let_def reverseDirection_def reverse_dir_def)
qed

text \<open>Claim C7 at an input vertex and at the output vertex, each with an inward, an
  undirected and an outward leg.\<close>

theorem conjugate_spec_witness:
  "conn_id (conn_example 1) \<noteq> 0 \<and> conn_conjugated (conjugate (conn_example 1))
   \<and> conn_id (conn_example 0) = 0 \<and> \<not> conn_conjugated (conjugate (conn_example 0))
   \<and> (2::nat) < length (conn_legs (conn_example 1))
   \<and> map leg_direction (conn_legs (conjugate (conn_example 1))) = [OUTWARD, UNDIRECT, INWARD]
   \<and> conjugate (conjugate (conn_example 1)) = conn_example 1"
  using conjugate_spec [of "conn_example 1"] conjugate_spec [of "conn_example 0"]
  by (simp add: conn_example_def conjugate_def Let_def reverseDirection_def reverse_dir_def)

section \<open>The destructor of the communicator proxy\<close>

lemma MPICommProxy_dtor_frees_iff:
  "freed (MPICommProxy_dtor mpi_enabled lib p) = [c] \<longleftrightarrow>
     mpi_enabled \<and> destroy_on_free p \<and> mpi_comm_ptr p = Some c \<and> use_count p = 1
     \<and> fst (MPI_Comm_compare lib c MPI_COMM_WORLD) = 0
     \<and> snd (MPI_Comm_compare lib c MPI_COMM_WORLD) \<noteq> MPI_IDENT
     \<and> fst (MPI_Comm_compare lib c MPI_COMM_SELF) = 0
     \<and> snd (MPI_Comm_compare lib c MPI_COMM_SELF) \<noteq> MPI_IDENT"
  by (auto simp: MPICommProxy_dtor_def split: option.splits prod.splits if_splits)

lemma MPICommProxy_dtor_freed_cases:
  "freed (MPICommProxy_dtor mpi_enabled lib p) = [] \<or>
   (\<exists>c. freed (MPICommProxy_dtor mpi_enabled lib p) = [c])"
  by (auto simp: MPICommProxy_dtor_def split: option.splits prod.splits if_splits)

text \<open>
  Claim C9. The destructor passes a communicator \<open>c\<close> to \<^verbatim>\<open>MPI_Comm_free\<close> exactly when MPI
  is enabled, the \<open>destroy_on_free\<close> bit is set, the proxy holds \<open>c\<close> with use count 1, and
  both comparisons succeed with a result other than \<^verbatim>\<open>MPI_IDENT\<close>; it frees nothing else.
  In an MPI library that finds a communicator identical to itself, it therefore never
  frees \<^verbatim>\<open>MPI_COMM_WORLD\<close> or \<^verbatim>\<open>MPI_COMM_SELF\<close>.
\<close>

theorem MPICommProxy_dtor_spec:
  assumes "snd (MPI_Comm_compare lib MPI_COMM_WORLD MPI_COMM_WORLD) = MPI_IDENT"
    and "snd (MPI_Comm_compare lib MPI_COMM_SELF MPI_COMM_SELF) = MPI_IDENT"
  shows "MPI_COMM_WORLD \<notin> set (freed (MPICommProxy_dtor mpi_enabled lib p))
     \<and> MPI_COMM_SELF \<notin> set (freed (MPICommProxy_dtor mpi_enabled lib p))
     \<and> length (freed (MPICommProxy_dtor mpi_enabled lib p)) \<le> 1
     \<and> (c \<in> set (freed (MPICommProxy_dtor mpi_enabled lib p)) \<longleftrightarrow>
          mpi_enabled \<and> destroy_on_free p \<and> mpi_comm_ptr p = Some c \<and> use_count p = 1
          \<and> fst (MPI_Comm_compare lib c MPI_COMM_WORLD) = 0
          \<and> snd (MPI_Comm_compare lib c MPI_COMM_WORLD) \<noteq> MPI_IDENT
          \<and> fst (MPI_Comm_compare lib c MPI_COMM_SELF) = 0
          \<and> snd (MPI_Comm_compare lib c MPI_COMM_SELF) \<noteq> MPI_IDENT)"
proof -
  let ?F = "freed (MPICommProxy_dtor mpi_enabled lib p)"
  have mem: "x \<in> set ?F \<longleftrightarrow> ?F = [x]" for x
    using MPICommProxy_dtor_freed_cases [of mpi_enabled lib p] by auto
  have len: "length ?F \<le> 1"
    using MPICommProxy_dtor_freed_cases [of mpi_enabled lib p] by auto
  have world: "MPI_COMM_WORLD \<notin> set ?F"
    using assms(1) by (simp add: mem MPICommProxy_dtor_frees_iff)
  have self: "MPI_COMM_SELF \<notin> set ?F"
    using assms(2) by (simp add: mem MPICommProxy_dtor_frees_iff)
  show ?thesis
    using world self len by (simp add: mem MPICommProxy_dtor_frees_iff)
qed

text \<open>Claim C9 on three proxies that hold the last reference with the bit set: one of
  a communicator of its own, which is freed, one of \<^verbatim>\<open>MPI_COMM_WORLD\<close> and one of
  \<^verbatim>\<open>MPI_COMM_SELF\<close>, which are not.\<close>

theorem MPICommProxy_dtor_spec_witness:
  "snd (MPI_Comm_compare mpi_example MPI_COMM_WORLD MPI_COMM_WORLD) = MPI_IDENT
   \<and> snd (MPI_Comm_compare mpi_example MPI_COMM_SELF MPI_COMM_SELF) = MPI_IDENT
   \<and> freed (MPICommProxy_dtor True mpi_example
        \<lparr>mpi_comm_ptr = Some (MPI_Comm_other 5), use_count = 1, destroy_on_free = True\<rparr>)
       = [MPI_Comm_other 5]
   \<and> MPI_COMM_WORLD \<notin> set (freed (MPICommProxy_dtor True mpi_example
        \<lparr>mpi_comm_ptr = Some MPI_COMM_WORLD, use_count = 1, destroy_on_free = True\<rparr>))
   \<and> MPI_COMM_SELF \<notin> set (freed (MPICommProxy_dtor True mpi_example
        \<lparr>mpi_comm_ptr = Some MPI_COMM_SELF, use_count = 1, destroy_on_free = True\<rparr>))"
proof -
  have h1: "snd (MPI_Comm_compare mpi_example MPI_COMM_WORLD MPI_COMM_WORLD) = MPI_IDENT"
    and h2: "snd (MPI_Comm_compare mpi_example MPI_COMM_SELF MPI_COMM_SELF) = MPI_IDENT"
    by (simp_all add: mpi_example_def)
  have f: "freed (MPICommProxy_dtor True mpi_example
        \<lparr>mpi_comm_ptr = Some (MPI_Comm_other 5), use_count = 1, destroy_on_free = True\<rparr>)
       = [MPI_Comm_other 5]"
    by (simp add: MPICommProxy_dtor_def mpi_example_def)
  show ?thesis
    using h1 h2 f
      MPICommProxy_dtor_spec [OF h1 h2, of True
        "\<lparr>mpi_comm_ptr = Some MPI_COMM_WORLD, use_count = 1, destroy_on_free = True\<rparr>"]
      MPICommProxy_dtor_spec [OF h1 h2, of True
        "\<lparr>mpi_comm_ptr = Some MPI_COMM_SELF, use_count = 1, destroy_on_free = True\<rparr>"]
    by simp
qed

section \<open>The reconstructor\<close>

subsection \<open>The iteration\<close>

lemma fold_gradient_step_ge:
  "m \<le> snd (fold (gradient_step B tol eps) ts (s, m))"
proof (induction ts arbitrary: s m)
  case Nil
  then show ?case by simp
next
  case (Cons t ts)
  have "m \<le> snd (gradient_step B tol eps t (s, m))"
    by (simp add: gradient_step_def Let_def)
  also have "\<dots> \<le> snd (fold (gradient_step B tol eps) ts (gradient_step B tol eps t (s, m)))"
    using Cons.IH [of "snd (gradient_step B tol eps t (s, m))"
        "fst (gradient_step B tol eps t (s, m))"]
    by simp
  finally show ?case by simp
qed

lemma fold_gradient_step_gt:
  assumes "ts \<noteq> []" and "\<And>s t. tol < eval_gradient_maxabs B s t"
  shows "tol < snd (fold (gradient_step B tol eps) ts (s, m))"
proof -
  obtain t ts' where ts: "ts = t # ts'"
    using assms(1) by (cases ts) auto
  have "tol < snd (gradient_step B tol eps t (s, m))"
    using assms(2) [of s t] by (simp add: gradient_step_def Let_def)
  also have "\<dots> \<le> snd (fold (gradient_step B tol eps) ts' (gradient_step B tol eps t (s, m)))"
    using fold_gradient_step_ge [of "snd (gradient_step B tol eps t (s, m))" B tol eps ts'
        "fst (gradient_step B tol eps t (s, m))"]
    by simp
  finally show ?thesis by (simp add: ts)
qed

text \<open>
  While some gradient stays above the tolerance the loop goes on, whatever
  \<open>max_iterations\<close> is: the loop does not read it.
\<close>

lemma reconstruct_loop_diverges:
  assumes "environments r \<noteq> []" and "\<And>s t. tolerance r < eval_gradient_maxabs B s t"
  shows "reconstruct_loop B r s n = None"
proof (rule ccontr)
  assume "reconstruct_loop B r s n \<noteq> None"
  then obtain y where y: "reconstruct_loop B r s n = Some y"
    by auto
  have key: "tolerance r <
      snd (fold (gradient_step B (tolerance r) (epsilon r)) (environments r) (s', 0))" for s'
    by (rule fold_gradient_step_gt [OF assms(1) assms(2)])
  have "B = B \<longrightarrow> r = r \<longrightarrow> False"
  proof (rule reconstruct_loop.raw_induct
      [where P = "\<lambda>B' r' s' n' y'. B' = B \<longrightarrow> r' = r \<longrightarrow> False", OF _ y], goal_cases)
    case (1 f B' r' s' it y')
    show ?case
    proof (intro impI)
      assume eqs: "B' = B" "r' = r"
      obtain s1 m where f:
        "fold (gradient_step B (tolerance r) (epsilon r)) (environments r) (s', 0) = (s1, m)"
        by (cases "fold (gradient_step B (tolerance r) (epsilon r)) (environments r) (s', 0)")
      have "tolerance r < m"
        using key [of s'] f by simp
      with 1(2) f eqs have "f B r s1 (it + 1) = Some y'"
        by simp
      with 1(1) show False
        by blast
    qed
  qed
  then show False by simp
qed

text \<open>
  Claim C4 fails on the code. With the iteration cap set to 1 and a gradient whose
  max-abs norm stays at 1, above the tolerance \<open>10\<^sup>-\<^sup>5\<close>, \<open>reconstruct\<close> never returns.
\<close>

theorem reconstruct_ignores_max_iterations:
  "max_iterations (resetMaxIterations 1 (reconstructor_example 1000)) = 1
   \<and> reconstruct (backend_const 1 1 1) (resetMaxIterations 1 (reconstructor_example 1000)) ()
       = None"
proof -
  let ?r = "(reconstructor_example 1)\<lparr>residual_norm2 := 0, fidelity := 0,
              environments := [''Y'']\<rparr>"
  have "reconstruct_loop (backend_const 1 1 1) ?r () 0 = None"
    by (rule reconstruct_loop_diverges)
      (simp_all add: reconstructor_example_def backend_const_def)
  then show ?thesis
    by (simp add: reconstruct_def reconstructor_example_def resetMaxIterations_def Let_def)
qed

subsection \<open>The reported fidelity\<close>

lemma reconstruct_unfold:
  assumes "r = r0\<lparr>residual_norm2 := 0, fidelity := 0,
      environments := environments r0 @ new_environments (exp_tensors (approximant r0)) []\<rparr>"
  shows "reconstruct B r0 s =
     (if environments r = [] then Some (True, 0, 0, r, s)
      else (case reconstruct_loop B r s 0 of
              None \<Rightarrow> None
            | Some (s1, iteration, res) \<Rightarrow>
                Some (True, res, cmod (eval_overlap B s1) * cmod (eval_overlap B s1),
                      r\<lparr>residual_norm2 := res,
                        fidelity := cmod (eval_overlap B s1) * cmod (eval_overlap B s1)\<rparr>, s1)))"
proof -
  have f: "residual_norm2 r = 0" "fidelity r = 0"
    by (simp_all add: assms)
  have "reconstruct B r0 s =
     (if environments r = [] then Some (True, residual_norm2 r, fidelity r, r, s)
         else
           (case reconstruct_loop B r s 0 of
              None \<Rightarrow> None
            | Some (s1, iteration, res) \<Rightarrow>
                let overlap_abs = cmod (eval_overlap B s1);
                    r1 = r\<lparr>residual_norm2 := res, fidelity := overlap_abs * overlap_abs\<rparr>
                in Some (True, residual_norm2 r1, fidelity r1, r1, s1)))"
    unfolding reconstruct_def assms Let_def ..
  then show ?thesis
    by (simp add: f Let_def cong: option.case_cong)
qed

lemma reconstruct_example_converged:
  "reconstruct (backend_const 0 res ov) (reconstructor_example cap) () =
     Some (True, cmod res, cmod ov * cmod ov,
           (reconstructor_example cap)\<lparr>residual_norm2 := cmod res, fidelity := cmod ov * cmod ov,
              environments := [''Y'']\<rparr>, ())"
  apply (simp add: reconstruct_def reconstructor_example_def Let_def)
  apply (subst reconstruct_loop.simps)
  apply (simp add: gradient_step_def backend_const_def Let_def)
  done

text \<open>
  Claim C8, as amended. When \<open>reconstruct\<close> returns, it returns true and the reported
  fidelity is the stored one and is not negative. With at least one optimizable tensor
  it is the squared modulus of the overlap of the approximant with the target, and it is
  at most 1 exactly when that modulus is at most 1; with none it is 0.
\<close>

theorem reconstruct_fidelity:
  assumes "reconstruct B r0 s = Some (ok, res_out, fid_out, r1, s1)"
  shows "ok \<and> fid_out = fidelity r1 \<and> 0 \<le> fid_out
    \<and> (environments r1 = [] \<longrightarrow> fid_out = 0)
    \<and> (environments r1 \<noteq> [] \<longrightarrow> fid_out = (cmod (eval_overlap B s1))\<^sup>2
          \<and> (fid_out \<le> 1 \<longleftrightarrow> cmod (eval_overlap B s1) \<le> 1))"
proof -
  define r where "r = r0\<lparr>residual_norm2 := 0, fidelity := 0,
      environments := environments r0 @ new_environments (exp_tensors (approximant r0)) []\<rparr>"
  note unf = reconstruct_unfold [OF r_def, of B s]
  show ?thesis
  proof (cases "environments r = []")
    case True
    with assms unf have "ok" "fid_out = 0" "r1 = r"
      by simp_all
    with True show ?thesis
      by (simp add: r_def)
  next
    case False
    obtain s1' it res where loop: "reconstruct_loop B r s 0 = Some (s1', it, res)"
      using assms False unf by (cases "reconstruct_loop B r s 0") auto
    from assms unf False loop
    have r1: "r1 = r\<lparr>residual_norm2 := res,
          fidelity := cmod (eval_overlap B s1) * cmod (eval_overlap B s1)\<rparr>"
      and out: "fid_out = cmod (eval_overlap B s1) * cmod (eval_overlap B s1)" "ok"
      by auto
    have "(cmod (eval_overlap B s1) * cmod (eval_overlap B s1) \<le> 1)
        = (cmod (eval_overlap B s1) \<le> 1)"
      using abs_square_le_1 [of "cmod (eval_overlap B s1)"] by (simp add: power2_eq_square)
    with r1 out False show ?thesis
      by (simp add: power2_eq_square)
  qed
qed

text \<open>Claim C8, as amended, on a run that converges in its first iteration with the
  overlap \<open>1/2\<close>: the fidelity is \<open>1/4\<close>.\<close>

theorem reconstruct_fidelity_witness:
  "reconstruct (backend_const 0 0 (1 / 2)) (reconstructor_example 1000) () =
     Some (True, 0, 1 / 4,
           (reconstructor_example 1000)\<lparr>residual_norm2 := 0, fidelity := 1 / 4,
              environments := [''Y'']\<rparr>, ())
   \<and> (1 / 4 :: real) = (cmod (eval_overlap (backend_const 0 0 (1 / 2)) ()))\<^sup>2
   \<and> (0 :: real) \<le> 1 / 4 \<and> (1 / 4 :: real) \<le> 1"
proof -
  have run: "reconstruct (backend_const 0 0 (1 / 2)) (reconstructor_example 1000) () =
     Some (True, 0, 1 / 4,
           (reconstructor_example 1000)\<lparr>residual_norm2 := 0, fidelity := 1 / 4,
              environments := [''Y'']\<rparr>, ())"
    using reconstruct_example_converged [of 0 "1 / 2" 1000] by (simp add: norm_divide)
  show ?thesis
    using run reconstruct_fidelity [OF run] by simp
qed

text \<open>
  Claim C8 as stated fails: the approximant equals a target of squared norm 4, so the
  gradient and the residual are 0 and the overlap is 4. \<open>reconstruct\<close> returns true and
  reports the fidelity 16.
\<close>

theorem reconstruct_fidelity_above_one:
  "reconstruct (backend_const 0 0 4) (reconstructor_example 1000) () =
     Some (True, 0, 16,
           (reconstructor_example 1000)\<lparr>residual_norm2 := 0, fidelity := 16,
              environments := [''Y'']\<rparr>, ())
   \<and> \<not> ((16 :: real) \<le> 1)"
  using reconstruct_example_converged [of 0 4 1000] by simp

subsection \<open>The solution\<close>





section \<open>The METIS graph: array accesses and loops\<close>

































section \<open>The METIS graph: the adjacency list of a merged vertex\<close>


























section \<open>The METIS graph: a merge runs to completion\<close>





















section \<open>The METIS graph: the adjacency lists of the other vertices\<close>






















section \<open>The METIS graph: the row offsets\<close>





section \<open>The METIS graph: edits\<close>

text \<open>The graph without a vertex satisfies the invariants.\<close>

lemma new_MetisGraph_ok:
  "sizes_ok new_MetisGraph \<and> offsets_ok new_MetisGraph \<and> lists_sorted new_MetisGraph"
  by (simp add: sizes_ok_def offsets_ok_def lists_sorted_def new_MetisGraph_def initMetisGraph_def
      rd_def)





text \<open>
  Claim C1 fails on the code. Merging the vertices 0 and 1 of the triangle leaves two
  parallel edges to vertex 2, of weights 4 and 5, which the claim combines to
  \<open>4 + 5 - 1 = 8\<close>. The code reads the weights of both runs from \<open>adjncy\<close>, so it combines
  the adjacent vertex ids instead and stores \<open>2 + 2 - 1 = 3\<close>.
\<close>

theorem mergeVertices_combines_vertex_ids:
  "mergeVertices triangle 0 1 =
     Some (True, new_MetisGraph\<lparr>num_vertices := 2, xadj := [0, 1, 3], adjncy := [2, 0, 0],
             adjwgt := [3, 4, 5], vwgt := [1, 1]\<rparr>)"
  by code_simp

section \<open>The METIS graph: the cost of a contraction\<close>

lemma getContractionCost_flops_zero:
  "getContractionCost g v1 v2 want_intermediate want_diff = Some (flops, volumes) \<Longrightarrow> flops = 0"
  by (auto simp: getContractionCost_def Let_def split: if_splits bind_splits)

text \<open>For a contraction with left open volume \<open>l\<close>, right open volume \<open>r\<close> and contracted
  volume \<open>c\<close>, the estimate of \<open>TensorOpContract\<close> is \<open>l * r * c\<close>: the product of the two
  input volumes \<open>l * c\<close> and \<open>r * c\<close> divided by the contracted volume.\<close>

lemma getFlopEstimate_contraction:
  assumes "isSet op'" and "operands op' = [Some (l * r), Some (l * c), Some (r * c)]"
  shows "getFlopEstimate op' = real l * real r * real c"
proof -
  have "real (l * r) * real (l * c) * real (r * c) = (real l * real r * real c)\<^sup>2"
    by (simp add: power2_eq_square)
  then have "sqrt (real (l * r) * real (l * c) * real (r * c)) = real l * real r * real c"
    by (simp del: of_nat_mult)
  then show ?thesis
    using assms by (simp add: getFlopEstimate_def del: of_nat_mult)
qed

text \<open>
  Claim C3 fails on the code. For the vertices 0 and 1 of the triangle the volumes are
  \<open>32\<close> and \<open>64\<close> and the shared edge has extent \<open>4\<close>, so the flop estimate of the claim is
  \<open>32 * 64 / 4 = 512\<close> (\<open>9\<close> in the \<open>log\<^sub>2\<close> domain). \<open>getContractionCost\<close> computes the
  intermediate volume \<open>128\<close> and the differential volume \<open>32\<close>, and returns the flop
  estimate \<open>0\<close>: the variable \<^verbatim>\<open>flops\<close> is never assigned.
\<close>

theorem getContractionCost_returns_zero:
  "getContractionCost triangle 0 1 True True = Some (0, Some 128, Some 32)"
  by code_simp

section \<open>The METIS graph: serialisation\<close>

lemma length_le_bytes [simp]: "length (le_bytes n w) = n"
  by (induction n arbitrary: w) auto

lemma of_le_bytes_le_bytes: "of_le_bytes (le_bytes n w) = take_bit (8 * n) w"
proof (induction n arbitrary: w)
  case 0
  then show ?case by simp
next
  case (Suc n)
  show ?case
    apply (simp add: Suc)
    apply (rule bit_word_eqI)
    apply (auto simp: bit_simps)
    done
qed

lemma of_le_bytes_8: "of_le_bytes (le_bytes 8 w) = w"
  using take_bit_length_eq [of w] by (simp add: of_le_bytes_le_bytes)

lemma sint_idx: "idx_ok x \<Longrightarrow> sint (word_of_int x :: 64 word) = x"
  by (simp add: idx_ok_def sint_sbintrunc' signed_take_bit_int_eq_self)

lemma unat_len: "n < 2 ^ 64 \<Longrightarrow> unat (word_of_nat n :: 64 word) = n"
  by (simp add: unat_of_nat)

lemma extract_unread:
  assumes "unread p = le_bytes 8 w @ r"
  shows "extractFromBytePacket p = Some (w, p\<lparr>pk_position := pk_position p + 8\<rparr>)"
    and "unread (p\<lparr>pk_position := pk_position p + 8\<rparr>) = r"
proof -
  have len: "length (drop (pk_position p) (pk_bytes p)) = 8 + length r"
    using assms by (simp add: unread_def)
  then have bound: "pk_position p + 8 \<le> length (pk_bytes p)"
    by simp
  have "take 8 (drop (pk_position p) (pk_bytes p)) = le_bytes 8 w"
    using assms by (simp add: unread_def)
  with bound show "extractFromBytePacket p = Some (w, p\<lparr>pk_position := pk_position p + 8\<rparr>)"
    by (simp add: extractFromBytePacket_def of_le_bytes_8)
  have "drop (pk_position p + 8) (pk_bytes p) = drop 8 (drop (pk_position p) (pk_bytes p))"
    by (simp add: add.commute)
  also have "\<dots> = r"
    using assms by (simp add: unread_def)
  finally show "unread (p\<lparr>pk_position := pk_position p + 8\<rparr>) = r"
    by (simp add: unread_def)
qed

lemma extract_elements_unread:
  assumes "unread p = concat (map (\<lambda>x. le_bytes 8 (word_of_int x)) xs) @ r"
    and "list_all idx_ok xs"
  shows "extract_elements (length xs) p =
           Some (xs, p\<lparr>pk_position := pk_position p + 8 * length xs\<rparr>)
         \<and> unread (p\<lparr>pk_position := pk_position p + 8 * length xs\<rparr>) = r"
  using assms
proof (induction xs arbitrary: p)
  case Nil
  then show ?case by (simp add: unread_def)
next
  case (Cons x xs)
  have u: "unread p = le_bytes 8 (word_of_int x) @
      (concat (map (\<lambda>x. le_bytes 8 (word_of_int x)) xs) @ r)"
    using Cons.prems(1) by simp
  note e = extract_unread [OF u]
  have ok: "idx_ok x" "list_all idx_ok xs"
    using Cons.prems(2) by simp_all
  from Cons.IH [OF e(2) ok(2)] e(1) ok(1)
  show ?case
    by (simp add: sint_idx add.assoc)
qed

lemma unpack_vector_unread:
  assumes "unread p = encode_vector xs @ r" and "vector_ok xs"
  obtains q where "unpack_vector p = Some (xs, q)" and "unread q = r"
proof -
  have u: "unread p = le_bytes 8 (word_of_nat (length xs)) @
      (concat (map (\<lambda>x. le_bytes 8 (word_of_int x)) xs) @ r)"
    using assms(1) by (simp add: encode_vector_def)
  note e = extract_unread [OF u]
  have ok: "list_all idx_ok xs" "length xs < 2 ^ 64"
    using assms(2) by (simp_all add: vector_ok_def)
  from extract_elements_unread [OF e(2) ok(1)] e(1) unat_len [OF ok(2)]
  have "unpack_vector p =
      Some (xs, p\<lparr>pk_position := pk_position p + 8,
                  pk_position := pk_position p + 8 + 8 * length xs\<rparr>)"
    and "unread (p\<lparr>pk_position := pk_position p + 8,
                   pk_position := pk_position p + 8 + 8 * length xs\<rparr>) = r"
    by (simp_all add: unpack_vector_def)
  then show thesis
    by (rule that)
qed

lemma fold_append_bytes:
  "fold (\<lambda>x q. appendToBytePacket q (word_of_int x)) v p =
     p\<lparr>pk_bytes := pk_bytes p @ concat (map (\<lambda>x. le_bytes 8 (word_of_int x)) v)\<rparr>"
  by (induction v arbitrary: p) (simp_all add: appendToBytePacket_def)

lemma pack_vector_bytes:
  "pack_vector v p = p\<lparr>pk_bytes := pk_bytes p @ encode_vector v\<rparr>"
  unfolding pack_vector_def fold_append_bytes
  by (simp add: appendToBytePacket_def encode_vector_def)

lemma pack_bytes:
  "pack g p = p\<lparr>pk_bytes := pk_bytes p @ le_bytes 8 (word_of_int (num_vertices g)) @
      encode_vector (renumber g) @ encode_vector (xadj g) @ encode_vector (adjncy g) @
      encode_vector (vwgt g) @ encode_vector (adjwgt g)\<rparr>"
  by (simp add: pack_def pack_vector_bytes appendToBytePacket_def)

lemma unpack_pack_fields:
  assumes "packable g" and "pk_position p = length (pk_bytes p)"
  shows "\<exists>q. unpack g0 (pack g p) =
           Some (g0\<lparr>num_vertices := num_vertices g, renumber := renumber g, xadj := xadj g,
                    adjncy := adjncy g, vwgt := vwgt g, adjwgt := adjwgt g\<rparr>, q)
           \<and> unread q = []"
proof -
  let ?P = "pack g p"
  have ok: "idx_ok (num_vertices g)" "vector_ok (renumber g)" "vector_ok (xadj g)"
    "vector_ok (adjncy g)" "vector_ok (vwgt g)" "vector_ok (adjwgt g)"
    using assms(1) by (simp_all add: packable_def)
  have u0: "unread ?P = le_bytes 8 (word_of_int (num_vertices g)) @
      (encode_vector (renumber g) @ (encode_vector (xadj g) @ (encode_vector (adjncy g) @
      (encode_vector (vwgt g) @ (encode_vector (adjwgt g) @ [])))))"
    using assms(2) by (simp add: pack_bytes unread_def)
  note e0 = extract_unread [OF u0]
  obtain p2 where e1:
    "unpack_vector (?P\<lparr>pk_position := pk_position ?P + 8\<rparr>) = Some (renumber g, p2)"
    and u2: "unread p2 = encode_vector (xadj g) @ (encode_vector (adjncy g) @
      (encode_vector (vwgt g) @ (encode_vector (adjwgt g) @ [])))"
    by (rule unpack_vector_unread [OF e0(2) ok(2)])
  obtain p3 where e2: "unpack_vector p2 = Some (xadj g, p3)"
    and u3: "unread p3 = encode_vector (adjncy g) @
      (encode_vector (vwgt g) @ (encode_vector (adjwgt g) @ []))"
    by (rule unpack_vector_unread [OF u2 ok(3)])
  obtain p4 where e3: "unpack_vector p3 = Some (adjncy g, p4)"
    and u4: "unread p4 = encode_vector (vwgt g) @ (encode_vector (adjwgt g) @ [])"
    by (rule unpack_vector_unread [OF u3 ok(4)])
  obtain p5 where e4: "unpack_vector p4 = Some (vwgt g, p5)"
    and u5: "unread p5 = encode_vector (adjwgt g) @ []"
    by (rule unpack_vector_unread [OF u4 ok(5)])
  obtain p6 where e5: "unpack_vector p5 = Some (adjwgt g, p6)"
    and u6: "unread p6 = []"
    by (rule unpack_vector_unread [OF u5 ok(6)])
  have "unpack g0 ?P =
      Some (g0\<lparr>num_vertices := num_vertices g, renumber := renumber g, xadj := xadj g,
               adjncy := adjncy g, vwgt := vwgt g, adjwgt := adjwgt g\<rparr>, p6)"
    unfolding unpack_def
    by (simp only: e0(1) e1 e2 e3 e4 e5 sint_idx [OF ok(1)] Option.bind.simps prod.case)
  with u6 show ?thesis
    by blast
qed

text \<open>
  Claim C5. A graph whose values fit the machine types is packed as \<open>num_vertices\<close>,
  then \<open>renumber\<close>, \<open>xadj\<close>, \<open>adjncy\<close>, \<open>vwgt\<close>, \<open>adjwgt\<close>, each vector as its length followed
  by its elements, every item a \<open>u64\<close>. Unpacking the packet into any graph \<open>g0\<close>, from the
  position where the packing began, succeeds, uses up the packet and gives a graph that
  \<^verbatim>\<open>operator==\<close> finds equal to the packed one.
\<close>

theorem unpack_pack:
  assumes "packable g" and "pk_position p = length (pk_bytes p)"
  shows "(\<exists>g' q. unpack g0 (pack g p) = Some (g', q) \<and> MetisGraph_eq g' g \<and> unread q = [])
     \<and> pk_bytes (pack g p) =
         pk_bytes p @ le_bytes 8 (word_of_int (num_vertices g)) @
         encode_vector (renumber g) @ encode_vector (xadj g) @ encode_vector (adjncy g) @
         encode_vector (vwgt g) @ encode_vector (adjwgt g)
     \<and> (\<forall>v. encode_vector v =
           le_bytes 8 (word_of_nat (length v)) @ concat (map (\<lambda>x. le_bytes 8 (word_of_int x)) v))"
proof -
  from unpack_pack_fields [OF assms, of g0] obtain q where
    "unpack g0 (pack g p) =
       Some (g0\<lparr>num_vertices := num_vertices g, renumber := renumber g, xadj := xadj g,
                adjncy := adjncy g, vwgt := vwgt g, adjwgt := adjwgt g\<rparr>, q)"
    and "unread q = []"
    by blast
  moreover have "MetisGraph_eq
      (g0\<lparr>num_vertices := num_vertices g, renumber := renumber g, xadj := xadj g,
          adjncy := adjncy g, vwgt := vwgt g, adjwgt := adjwgt g\<rparr>) g"
    by (simp add: MetisGraph_eq_def)
  ultimately have "\<exists>g' q. unpack g0 (pack g p) = Some (g', q) \<and> MetisGraph_eq g' g \<and> unread q = []"
    by blast
  then show ?thesis
    by (simp add: pack_bytes encode_vector_def)
qed

text \<open>Claim C5 on the triangle, packed into an empty packet and unpacked into a new
  graph.\<close>

theorem unpack_pack_witness:
  "packable triangle
   \<and> pk_position \<lparr>pk_bytes = [], pk_position = 0\<rparr> = length (pk_bytes \<lparr>pk_bytes = [], pk_position = 0\<rparr>)
   \<and> (\<exists>g' q. unpack new_MetisGraph (pack triangle \<lparr>pk_bytes = [], pk_position = 0\<rparr>) = Some (g', q)
         \<and> MetisGraph_eq g' triangle \<and> unread q = [])
   \<and> length (pk_bytes (pack triangle \<lparr>pk_bytes = [], pk_position = 0\<rparr>)) = 200"
proof -
  have h1: "packable triangle"
    by (simp add: packable_def vector_ok_def idx_ok_def triangle_def new_MetisGraph_def
        initMetisGraph_def)
  have h2: "pk_position \<lparr>pk_bytes = [], pk_position = 0\<rparr>
      = length (pk_bytes \<lparr>pk_bytes = [], pk_position = 0\<rparr>)"
    by simp
  have len: "length (encode_vector v) = 8 + 8 * length v" for v
    by (simp add: encode_vector_def length_concat o_def sum_list_triv)
  show ?thesis
    using h1 h2 unpack_pack [OF h1 h2, of new_MetisGraph]
    by (simp add: len triangle_def new_MetisGraph_def initMetisGraph_def)
qed

end
